theory Spec2Isabelle
  imports Complex_Main "HOL-Library.Word" "HOL-Library.Signed_Division"
begin

section \<open>Machine integers and failures\<close>

text \<open>
  The solvers compute with three C++ integer types. On the platforms the library is
  built for, \<open>int\<close> and \<open>unsigned\<close> have 32 bits and \<open>std::size_t\<close> has 64.
  All three are words; \<open>int\<close> is read through \<open>sint\<close>. Unsigned arithmetic wraps
  around by definition of the language. Signed overflow is undefined in C++; the model
  gives it the two's complement result of the hardware, and every theorem below whose
  conclusion depends on a signed result says in which range it holds.
\<close>

type_synonym cint = "32 word"
type_synonym cunsigned = "32 word"
type_synonym size_t = "64 word"

text \<open>
  What ends a call without a return value: a failed \<open>assert\<close> (in a build without
  \<open>NDEBUG\<close>) and the two traps of integer division.
\<close>

datatype failure = AssertionFailed | DivisionByZero | DivisionOverflow

text \<open>
  \<open>a / b\<close> and \<open>a % b\<close> on \<open>int\<close> truncate towards zero. \<open>int_quot\<close> and \<open>int_rem\<close>
  are the quotient and remainder where the divisor is a non-zero literal of the source;
  \<open>int_div\<close> is the division by a variable, with its traps.
\<close>

definition int_quot :: "cint \<Rightarrow> cint \<Rightarrow> cint" where
  "int_quot a b = word_of_int (sint a sdiv sint b)"

definition int_rem :: "cint \<Rightarrow> cint \<Rightarrow> cint" where
  "int_rem a b = word_of_int (sint a smod sint b)"

definition int_div :: "cint \<Rightarrow> cint \<Rightarrow> failure + cint" where
  "int_div a b =
     (if b = 0 then Inl DivisionByZero
      else if a = - (2 ^ 31) \<and> b = - 1 then Inl DivisionOverflow
      else Inr (int_quot a b))"

section \<open>The fixed-shape assembly solver \<open>ConvAsm5x10u2v2f1\<close>\<close>

text \<open>
  Modelled from the spec: the declaration of \<open>ImplementationSearchParameters\<close> is in a
  header that is not among the sources. The record holds the quantities of the
  specification's problem and device descriptors that \<open>IsCorrect\<close> and
  \<open>PrepareForUsage\<close> read, under the names the source gives them and with the types
  their uses show: the sizes are \<open>int\<close> (they are combined into \<open>const int\<close> locals
  and compared with \<open>int\<close> literals), the layouts are strings, and \<open>GetDeviceName\<close> is
  the string that \<open>params.GetStream().GetDeviceName()\<close> returns. The metadata version
  \<open>rmv\<close> is left out: it flows into the option string only.
\<close>

record ImplementationSearchParameters =
  assembler_available :: bool
  GetDeviceName :: string
  forward :: bool
  weights_layout :: string
  in_layout :: string
  pad0 :: cint
  pad1 :: cint
  kernel_stride0 :: cint
  kernel_stride1 :: cint
  kernel_size0 :: cint
  kernel_size1 :: cint
  n_inputs :: cint
  n_outputs :: cint
  in_width :: cint
  in_height :: cint
  batch_sz :: cint

definition device_is_gfx8_9_no_xnack :: "string \<Rightarrow> bool" where
  "device_is_gfx8_9_no_xnack name \<longleftrightarrow>
     name = ''gfx800'' \<or> name = ''gfx802'' \<or> name = ''gfx803'' \<or> name = ''gfx804'' \<or>
     name = ''gfx900''"

text \<open>
  \<open>IsCorrect\<close>. The first argument tells whether the translation unit was compiled with
  \<open>NDEBUG\<close>, which turns \<open>assert\<close> into nothing.
\<close>

definition IsCorrect :: "bool \<Rightarrow> ImplementationSearchParameters \<Rightarrow> failure + bool" where
  "IsCorrect NDEBUG params =
     (if \<not> assembler_available params then Inr False
      else if \<not> device_is_gfx8_9_no_xnack (GetDeviceName params) then Inr False
      else if \<not> forward params then Inr False
      else if \<not> NDEBUG \<and> length (weights_layout params) \<noteq> 0 then Inl AssertionFailed
      else
        let min_in_width = kernel_size0 params - pad0 params * 2;
            min_in_height = kernel_size1 params - pad1 params * 2;
            max_in_width = 8192 - 1;
            max_in_height = 131077 - 1
        in Inr (0 \<le>s pad0 params
              \<and> pad0 params \<le>s 5
              \<and> 0 \<le>s pad1 params
              \<and> pad1 params \<le>s 5
              \<and> kernel_stride0 params = 2
              \<and> kernel_stride1 params = 2
              \<and> kernel_size0 params = 10
              \<and> kernel_size1 params = 5
              \<and> 1 \<le>s n_inputs params
              \<and> int_rem (n_outputs params) 16 = 0
              \<and> 1 \<le>s n_outputs params \<and> min_in_width \<le>s in_width params
              \<and> in_width params \<le>s max_in_width \<and> min_in_height \<le>s in_height params
              \<and> in_height params \<le>s max_in_height
              \<and> in_layout params = ''NCHW''))"

text \<open>
  \<open>AlignUp(int val, unsigned step)\<close>. In \<open>val + step - 1\<close> the \<open>int\<close> is converted to
  \<open>unsigned\<close>, so the sum, the quotient and the product are unsigned and wrap around;
  the result is converted back to \<open>int\<close>. Both conversions keep the 32 bits. Without the
  assertion a zero step reaches the division.
\<close>

definition AlignUp :: "bool \<Rightarrow> cint \<Rightarrow> cunsigned \<Rightarrow> failure + cint" where
  "AlignUp NDEBUG val step =
     (if \<not> NDEBUG \<and> \<not> 0 < step then Inl AssertionFailed
      else if step = 0 then Inl DivisionByZero
      else Inr (((val + step - 1) div step) * step))"

text \<open>
  The kernel description. \<open>l_wk\<close> and \<open>g_wk\<close> are vectors of \<open>size_t\<close>; an \<open>int\<close>
  pushed onto them is sign-extended (\<open>scast\<close>). The compiler option string
  \<open>comp_options\<close> is left out: it is written through \<open>GenerateClangDefsym\<close> and
  \<open>std::to_string\<close> and does not flow into the work sizes or the workspace size.
\<close>

record KernelInfo =
  l_wk :: "size_t list"
  g_wk :: "size_t list"
  kernel_file :: string
  kernel_name :: string

type_synonym KernelUsageDescription = KernelInfo

record ImplementationUsageDescription =
  construction_params :: "KernelUsageDescription list"

text \<open>The two locals \<open>out_w\<close> and \<open>out_h\<close> of \<open>PrepareForUsage\<close>.\<close>

definition out_w :: "ImplementationSearchParameters \<Rightarrow> failure + cint" where
  "out_w params =
     int_div (in_width params + pad0 params * 2 + kernel_stride0 params - kernel_size0 params)
       (kernel_stride0 params)"

definition out_h :: "ImplementationSearchParameters \<Rightarrow> failure + cint" where
  "out_h params =
     int_div (in_height params + pad1 params * 2 + kernel_stride1 params - kernel_size1 params)
       (kernel_stride1 params)"

text \<open>Sequencing of calls that can fail: the first failure ends the computation.\<close>

definition and_then :: "failure + 'a \<Rightarrow> ('a \<Rightarrow> failure + 'b) \<Rightarrow> failure + 'b" where
  "and_then r f = (case r of Inl e \<Rightarrow> Inl e | Inr x \<Rightarrow> f x)"

definition PrepareForUsage ::
  "bool \<Rightarrow> ImplementationSearchParameters \<Rightarrow> failure + ImplementationUsageDescription" where
  "PrepareForUsage NDEBUG params =
     and_then (out_w params) (\<lambda>ow.
     and_then (out_h params) (\<lambda>oh.
     and_then (AlignUp NDEBUG ow 64) (\<lambda>g0.
     and_then (AlignUp NDEBUG oh 4) (\<lambda>a1.
     and_then (AlignUp NDEBUG (int_quot (n_outputs params) 2) 8) (\<lambda>a2.
       Inr \<lparr>construction_params =
             [\<lparr>l_wk = [64, 8, 1],
               g_wk = [scast g0, scast (int_quot a1 4 * a2), scast (batch_sz params)],
               kernel_file = ''conv5x10u2v2f1.s'',
               kernel_name = ''conv5x10u2v2f1''\<rparr>]\<rparr>)))))"

section \<open>The implicit-GEMM solver \<open>ConvHipImplicitGemmBwdDataV1R1Xdlops\<close>\<close>

text \<open>
  Modelled from the spec: \<open>ConvolutionContext\<close> and \<open>ConvolutionContextInterpreter\<close> are
  declared in headers that are not among the sources. The context is a record of the
  quantities of the specification's convolution problem that the three member functions
  read: the direction, the spatial rank, the element datatype, the group count, and the
  counts \<open>N\<close>, \<open>K\<close>, \<open>C\<close>, \<open>Hi\<close>, \<open>Wi\<close>, \<open>Ho\<close>, \<open>Wo\<close>, \<open>Y\<close>, \<open>X\<close>. Each getter of
  \<open>ConvolutionContextInterpreter\<close> is a field holding the count it returns, as the
  \<open>std::size_t\<close> value of the local that receives it (a count is not negative, so the
  conversion keeps the number); \<open>group_counts\<close> likewise. The specification names the
  datatypes \<open>fp32\<close>, \<open>fp16\<close> and \<open>bfp16\<close>; the test
  \<open>!(IsFp32() || IsFp16() || IsBfp16())\<close> of the source allows for others, here the
  integer types.
\<close>

datatype Direction = Forward | BackwardData | BackwardWeights

datatype miopenDataType_t =
  miopenHalf | miopenFloat | miopenInt32 | miopenInt8 | miopenInt8x4 | miopenBFloat16

record ConvolutionContext =
  direction :: Direction
  spatial_dims :: nat
  data_type :: miopenDataType_t
  group_counts :: size_t
  GetBatchN :: size_t
  GetOutputChannelK :: size_t
  GetInputChannelC :: size_t
  GetInputHeightHi :: size_t
  GetInputWidthWi :: size_t
  GetOutputHeightHo :: size_t
  GetOutputWidthWo :: size_t
  GetFilterHeightY :: size_t
  GetFilterWidthX :: size_t

definition IsBackwardData :: "Direction \<Rightarrow> bool" where
  "IsBackwardData d \<longleftrightarrow> d = BackwardData"

definition Is2d :: "ConvolutionContext \<Rightarrow> bool" where
  "Is2d ctx \<longleftrightarrow> spatial_dims ctx = 2"

definition IsFp32 :: "ConvolutionContext \<Rightarrow> bool" where
  "IsFp32 ctx \<longleftrightarrow> data_type ctx = miopenFloat"

definition IsFp16 :: "ConvolutionContext \<Rightarrow> bool" where
  "IsFp16 ctx \<longleftrightarrow> data_type ctx = miopenHalf"

definition IsBfp16 :: "ConvolutionContext \<Rightarrow> bool" where
  "IsBfp16 ctx \<longleftrightarrow> data_type ctx = miopenBFloat16"

text \<open>
  Modelled from the spec: \<open>GetTypeSize\<close> is not in the sources. The spec gives the one
  value the solver asks for, \<open>sizeof(fp32) = 4\<close>; the other sizes are the widths of the
  types and are not used.
\<close>

fun GetTypeSize :: "miopenDataType_t \<Rightarrow> size_t" where
  "GetTypeSize miopenFloat = 4"
| "GetTypeSize miopenInt32 = 4"
| "GetTypeSize miopenHalf = 2"
| "GetTypeSize miopenBFloat16 = 2"
| "GetTypeSize miopenInt8x4 = 1"
| "GetTypeSize miopenInt8 = 1"

definition GetWorkspaceSize :: "ConvolutionContext \<Rightarrow> size_t" where
  "GetWorkspaceSize ctx =
     (if IsFp32 ctx then 0
      else
        let n = GetBatchN ctx;
            c = GetInputChannelC ctx;
            hi = GetInputHeightHi ctx;
            wi = GetInputWidthWi ctx
        in n * c * hi * wi * GetTypeSize miopenFloat)"

text \<open>
  \<open>IsApplicable\<close>. The helpers \<open>IsXdlopsSupport\<close> and \<open>GetEPackLength\<close> are declared in
  \<open>implicitgemm_util.hpp\<close>, which is not among the sources; they are parameters, and the
  theorems hold for every choice of them. A zero group count or a zero pack length
  divides by zero.
\<close>

definition IsApplicable ::
  "(ConvolutionContext \<Rightarrow> bool) \<Rightarrow> (ConvolutionContext \<Rightarrow> bool \<Rightarrow> size_t) \<Rightarrow>
   ConvolutionContext \<Rightarrow> failure + bool" where
  "IsApplicable IsXdlopsSupport GetEPackLength ctx =
     (if \<not> IsBackwardData (direction ctx) then Inr False
      else if \<not> Is2d ctx then Inr False
      else if \<not> (IsFp32 ctx \<or> IsFp16 ctx \<or> IsBfp16 ctx) then Inr False
      else if group_counts ctx = 0 then Inl DivisionByZero
      else
        let n = GetBatchN ctx;
            k = GetOutputChannelK ctx div group_counts ctx;
            c = GetInputChannelC ctx div group_counts ctx;
            y = GetFilterHeightY ctx;
            x = GetFilterWidthX ctx;
            ho = GetOutputHeightHo ctx;
            wo = GetOutputWidthWo ctx
        in if GetEPackLength ctx True = 0 then Inl DivisionByZero
           else if k mod GetEPackLength ctx True \<noteq> 0 then Inr False
           else
             let nonVectorizedK = k div GetEPackLength ctx True
             in Inr (IsXdlopsSupport ctx \<and> (n * ho * wo) mod 128 = 0 \<and>
                     (c * y * x) mod 128 = 0 \<and> nonVectorizedK mod 16 = 0))"

record ConvSolution = ImplementationUsageDescription +
  workspce_sz :: size_t

definition GetSolution :: "ConvolutionContext \<Rightarrow> ConvSolution" where
  "GetSolution ctx =
     (let n = GetBatchN ctx;
          c = GetInputChannelC ctx;
          ho = GetOutputHeightHo ctx;
          wo = GetOutputWidthWo ctx;
          y = GetFilterHeightY ctx;
          x = GetFilterWidthX ctx;
          gemm_m = c * y * x;
          gemm_n = n * ho * wo;
          gemm_m_per_block = 128;
          gemm_n_per_block = 128;
          block_size = 256;
          grid_size = (gemm_m div gemm_m_per_block) * (gemm_n div gemm_n_per_block);
          lkl_wk0 = block_size;
          lkl_wk1 = 1;
          lkl_wk2 = 1;
          gbl_wk0 = lkl_wk0 * grid_size;
          gbl_wk1 = 1;
          gbl_wk2 = 1;
          construction_parameters =
            (if 1 < group_counts ctx
             then \<lparr>l_wk = [lkl_wk0, lkl_wk1, lkl_wk2],
                   g_wk = [gbl_wk0, gbl_wk1, gbl_wk2],
                   kernel_file =
                     ''gridwise_convolution_backward_data_implicit_gemm_v1r1_xdlops_gnchw_gkcyx_gnkhw.cpp'',
                   kernel_name =
                     ''gridwise_convolution_backward_data_implicit_gemm_v1r1_xdlops_gnchw_gkcyx_gnkhw''\<rparr>
             else \<lparr>l_wk = [lkl_wk0, lkl_wk1, lkl_wk2],
                   g_wk = [gbl_wk0, gbl_wk1, gbl_wk2],
                   kernel_file =
                     ''gridwise_convolution_backward_data_implicit_gemm_v1r1_xdlops_nchw_kcyx_nkhw.cpp'',
                   kernel_name =
                     ''gridwise_convolution_backward_data_implicit_gemm_v1r1_xdlops_nchw_kcyx_nkhw''\<rparr>)
      in \<lparr>construction_params = [construction_parameters],
          workspce_sz = GetWorkspaceSize ctx\<rparr>)"

section \<open>The arithmetic of the specification\<close>

text \<open>
  The two formulas of the specification, in its own words and over the mathematical
  integers: \<open>AlignUp(value, step) = ceil(value / step) * step\<close>, and the output size
  \<open>out = (in + 2*pad - (kernel - stride)) / stride\<close> with floor division. The code is
  compared with them below.
\<close>

definition AlignUp_spec :: "int \<Rightarrow> int \<Rightarrow> int" where
  "AlignUp_spec val step = \<lceil>real_of_int val / real_of_int step\<rceil> * step"

definition OutputSize_spec :: "int \<Rightarrow> int \<Rightarrow> int \<Rightarrow> int \<Rightarrow> int" where
  "OutputSize_spec inp pad ksize stride =
     \<lfloor>real_of_int (inp + 2 * pad - (ksize - stride)) / real_of_int stride\<rfloor>"

section \<open>Concrete problems\<close>

text \<open>
  A problem the fixed-shape solver accepts: a 14 by 23 image with 3 channels, no padding,
  32 output channels, batch size 8, on \<open>gfx900\<close>.
\<close>

definition params_14x23 :: ImplementationSearchParameters where
  "params_14x23 =
     \<lparr>assembler_available = True, GetDeviceName = ''gfx900'', forward = True,
      weights_layout = [], in_layout = ''NCHW'',
      pad0 = 0, pad1 = 0, kernel_stride0 = 2, kernel_stride1 = 2,
      kernel_size0 = 10, kernel_size1 = 5, n_inputs = 3, n_outputs = 32,
      in_width = 14, in_height = 23, batch_sz = 8\<rparr>"

text \<open>
  A device with xdlops and one without, and a pack length that depends on the datatype only: four
  \<open>fp16\<close> values per slot when xdlops is used and two otherwise, two \<open>bfp16\<close> values,
  one \<open>fp32\<close> value.
\<close>

definition xdlops_device :: "ConvolutionContext \<Rightarrow> bool" where
  "xdlops_device ctx = True"

definition no_xdlops_device :: "ConvolutionContext \<Rightarrow> bool" where
  "no_xdlops_device ctx = False"

definition pack_length :: "ConvolutionContext \<Rightarrow> bool \<Rightarrow> size_t" where
  "pack_length ctx isXdlopsInvoked =
     (if IsFp16 ctx then (if isXdlopsInvoked then 4 else 2)
      else if IsBfp16 ctx then 2 else 1)"

text \<open>
  A backward-data problem in \<open>fp16\<close>: batch 8, 3 input channels of 224 by 224, 64 output
  channels of 224 by 224, a 1 by 1 filter, one group.
\<close>

definition ctx_224 :: ConvolutionContext where
  "ctx_224 =
     \<lparr>direction = BackwardData, spatial_dims = 2, data_type = miopenHalf, group_counts = 1,
      GetBatchN = 8, GetOutputChannelK = 64, GetInputChannelC = 3,
      GetInputHeightHi = 224, GetInputWidthWi = 224,
      GetOutputHeightHo = 224, GetOutputWidthWo = 224,
      GetFilterHeightY = 1, GetFilterWidthX = 1\<rparr>"

text \<open>
  A backward-data problem in \<open>fp16\<close> that the implicit-GEMM solver accepts: batch 128,
  256 input channels, 64 output channels, 14 by 14 images, a 3 by 3 filter, one group.
\<close>

definition ctx_gemm :: ConvolutionContext where
  "ctx_gemm =
     \<lparr>direction = BackwardData, spatial_dims = 2, data_type = miopenHalf, group_counts = 1,
      GetBatchN = 128, GetOutputChannelK = 64, GetInputChannelC = 256,
      GetInputHeightHi = 14, GetInputWidthWi = 14,
      GetOutputHeightHo = 14, GetOutputWidthWo = 14,
      GetFilterHeightY = 3, GetFilterWidthX = 3\<rparr>"

text \<open>
  A grouped problem in \<open>fp32\<close> whose group count, 2, does not divide its 5 input
  channels: batch 128, 32 output channels, an 8 by 8 filter, 1 by 1 output images.
\<close>

definition ctx_grouped :: ConvolutionContext where
  "ctx_grouped =
     \<lparr>direction = BackwardData, spatial_dims = 2, data_type = miopenFloat, group_counts = 2,
      GetBatchN = 128, GetOutputChannelK = 32, GetInputChannelC = 5,
      GetInputHeightHi = 8, GetInputWidthWi = 8,
      GetOutputHeightHo = 1, GetOutputWidthWo = 1,
      GetFilterHeightY = 8, GetFilterWidthX = 8\<rparr>"

text \<open>
  Two problems whose sizes no longer fit 64 bits: an \<open>fp16\<close> input tensor with all four
  extents \<open>65536\<close>, and an \<open>fp32\<close> filter with \<open>4194304\<close> input channels and extents
  \<open>2097152\<close> by \<open>2097152\<close>.
\<close>

definition ctx_65536 :: ConvolutionContext where
  "ctx_65536 =
     \<lparr>direction = BackwardData, spatial_dims = 2, data_type = miopenHalf, group_counts = 1,
      GetBatchN = 65536, GetOutputChannelK = 64, GetInputChannelC = 65536,
      GetInputHeightHi = 65536, GetInputWidthWi = 65536,
      GetOutputHeightHo = 65536, GetOutputWidthWo = 65536,
      GetFilterHeightY = 1, GetFilterWidthX = 1\<rparr>"

definition ctx_wide_filter :: ConvolutionContext where
  "ctx_wide_filter =
     \<lparr>direction = BackwardData, spatial_dims = 2, data_type = miopenFloat, group_counts = 1,
      GetBatchN = 128, GetOutputChannelK = 16, GetInputChannelC = 4194304,
      GetInputHeightHi = 1, GetInputWidthWi = 1,
      GetOutputHeightHo = 1, GetOutputWidthWo = 1,
      GetFilterHeightY = 2097152, GetFilterWidthX = 2097152\<rparr>"

section \<open>Signed and unsigned 32-bit arithmetic\<close>

lemma cint_range: "- 2147483648 \<le> sint (x::cint)" "sint (x::cint) < 2147483648"
  using sint_ge [of x] sint_lt [of x] by simp_all

lemma cint_eq_iff: "(x::cint) = y \<longleftrightarrow> sint x = sint y"
  by (auto intro: signed_word_eqI)

lemma sint_sub_small:
  fixes a b :: cint
  assumes "- 2147483648 \<le> sint a - sint b" "sint a - sint b < 2147483648"
  shows "sint (a - b) = sint a - sint b"
  using assms by (simp add: sint_word_ariths signed_take_bit_int_eq_self)

lemma sint_mult_small:
  fixes a b :: cint
  assumes "- 2147483648 \<le> sint a * sint b" "sint a * sint b < 2147483648"
  shows "sint (a * b) = sint a * sint b"
  using assms by (simp add: sint_word_ariths signed_take_bit_int_eq_self)

lemma sint_of_int_small:
  assumes "- 2147483648 \<le> k" "k < 2147483648"
  shows "sint (word_of_int k :: cint) = k"
  using assms by (simp add: sint_sbintrunc' signed_take_bit_int_eq_self)

lemma uint_of_int_small:
  assumes "0 \<le> k" "k < 4294967296"
  shows "uint (word_of_int k :: cint) = k"
  using assms by (simp add: uint_word_of_int)

lemma int_rem_16: "int_rem n 16 = 0 \<longleftrightarrow> 16 dvd sint n"
proof -
  have r: "\<bar>sint n smod 16\<bar> < 16"
    by (simp add: smod_int_alt_def abs_mult abs_sgn_eq)
  then have "sint (word_of_int (sint n smod 16) :: cint) = sint n smod 16"
    by (intro sint_of_int_small) auto
  then have "int_rem n 16 = 0 \<longleftrightarrow> sint n smod 16 = 0"
    by (auto simp add: int_rem_def cint_eq_iff)
  also have "\<dots> \<longleftrightarrow> 16 dvd sint n"
    by (auto simp add: smod_int_alt_def sgn_if dvd_eq_mod_eq_0 zmod_zminus1_eq_if
        split: if_splits)
  finally show ?thesis .
qed

lemma sint_int_rem_16: "sint (int_rem n 16) = 0 \<longleftrightarrow> 16 dvd sint n"
  using int_rem_16 [of n] by (simp add: cint_eq_iff)

lemma min_in_small:
  fixes k pad :: cint
  assumes "0 \<le> sint pad" "sint pad \<le> 5" "sint k = 10 \<or> sint k = 5"
  shows "sint (k - pad * 2) = sint k - 2 * sint pad"
proof -
  have m: "sint (pad * 2) = sint pad * 2"
    using assms by (intro sint_mult_small [of pad 2, simplified]) auto
  show ?thesis
    using assms m by (subst sint_sub_small) auto
qed

section \<open>The applicability test of the fixed-shape solver\<close>

lemma IsCorrect_conditions:
  assumes "assembler_available p" and "device_is_gfx8_9_no_xnack (GetDeviceName p)"
    and "forward p" and "weights_layout p = []"
  shows "IsCorrect nd p =
     Inr (0 \<le> sint (pad0 p) \<and> sint (pad0 p) \<le> 5 \<and> 0 \<le> sint (pad1 p) \<and> sint (pad1 p) \<le> 5 \<and>
          sint (kernel_stride0 p) = 2 \<and> sint (kernel_stride1 p) = 2 \<and>
          sint (kernel_size0 p) = 10 \<and> sint (kernel_size1 p) = 5 \<and>
          1 \<le> sint (n_inputs p) \<and>
          1 \<le> sint (n_outputs p) \<and> 16 dvd sint (n_outputs p) \<and>
          sint (kernel_size0 p) - 2 * sint (pad0 p) \<le> sint (in_width p) \<and>
          sint (in_width p) \<le> 8191 \<and>
          sint (kernel_size1 p) - 2 * sint (pad1 p) \<le> sint (in_height p) \<and>
          sint (in_height p) \<le> 131076 \<and>
          in_layout p = ''NCHW'')"
proof -
  have w: "0 \<le> sint (pad0 p) \<Longrightarrow> sint (pad0 p) \<le> 5 \<Longrightarrow> sint (kernel_size0 p) = 10 \<Longrightarrow>
      sint (kernel_size0 p - pad0 p * 2) = 10 - 2 * sint (pad0 p)"
    using min_in_small [of "pad0 p" "kernel_size0 p"] by simp
  have h: "0 \<le> sint (pad1 p) \<Longrightarrow> sint (pad1 p) \<le> 5 \<Longrightarrow> sint (kernel_size1 p) = 5 \<Longrightarrow>
      sint (kernel_size1 p - pad1 p * 2) = 5 - 2 * sint (pad1 p)"
    using min_in_small [of "pad1 p" "kernel_size1 p"] by simp
  show ?thesis
    using assms w h
    by (auto simp add: IsCorrect_def Let_def word_sle_eq sint_int_rem_16 cint_eq_iff)
qed

text \<open>
  Claim C5. For a problem with the default (empty) weights layout on a whitelisted device,
  with an assembler and in forward direction, \<open>IsCorrect\<close> returns a boolean in either
  build, and it returns true exactly when both paddings are in \<open>[0,5]\<close>, the stride is
  \<open>(2,2)\<close>, the filter is 10 wide and 5 high, there is at least one input channel, the
  number of output channels is at least 1 and divisible by 16, the input width is in
  \<open>[filter_width - 2 * pad_w, 8191]\<close>, the input height is in
  \<open>[filter_height - 2 * pad_h, 131076]\<close>, and the input layout is \<open>NCHW\<close>.
\<close>

theorem IsCorrect_true_iff:
  assumes "assembler_available p" and "device_is_gfx8_9_no_xnack (GetDeviceName p)"
    and "forward p" and "weights_layout p = []"
  shows "(IsCorrect nd p = Inr True \<longleftrightarrow>
          0 \<le> sint (pad0 p) \<and> sint (pad0 p) \<le> 5 \<and> 0 \<le> sint (pad1 p) \<and> sint (pad1 p) \<le> 5 \<and>
          sint (kernel_stride0 p) = 2 \<and> sint (kernel_stride1 p) = 2 \<and>
          sint (kernel_size0 p) = 10 \<and> sint (kernel_size1 p) = 5 \<and>
          1 \<le> sint (n_inputs p) \<and>
          1 \<le> sint (n_outputs p) \<and> 16 dvd sint (n_outputs p) \<and>
          sint (kernel_size0 p) - 2 * sint (pad0 p) \<le> sint (in_width p) \<and>
          sint (in_width p) \<le> 8191 \<and>
          sint (kernel_size1 p) - 2 * sint (pad1 p) \<le> sint (in_height p) \<and>
          sint (in_height p) \<le> 131076 \<and>
          in_layout p = ''NCHW'') \<and>
         (\<exists>b. IsCorrect nd p = Inr b)"
  using IsCorrect_conditions [OF assms, of nd] by simp

theorem IsCorrect_true_iff_witness:
  "assembler_available params_14x23 \<and> device_is_gfx8_9_no_xnack (GetDeviceName params_14x23) \<and>
   forward params_14x23 \<and> weights_layout params_14x23 = [] \<and>
   IsCorrect False params_14x23 = Inr True \<and>
   IsCorrect False (params_14x23\<lparr>n_outputs := 24\<rparr>) \<noteq> Inr True"
  using IsCorrect_true_iff [of params_14x23 False]
    IsCorrect_true_iff [of "params_14x23\<lparr>n_outputs := 24\<rparr>" False]
  by (simp add: params_14x23_def device_is_gfx8_9_no_xnack_def)

text \<open>
  Claim C1, as amended. On a problem with a non-empty weights layout \<open>IsCorrect\<close> returns
  false when the assembler is missing, the device is not whitelisted or the direction is
  not forward. When all three prerequisites hold it does not return false on account of
  the layout: in a build with assertions it fails the assertion
  \<open>weights_layout.length() == 0\<close>, and in a build with \<open>NDEBUG\<close> it ignores the layout
  and returns what it returns for the same problem with the default layout.
\<close>

theorem IsCorrect_weights_layout:
  assumes "weights_layout p \<noteq> []"
  shows "IsCorrect nd p =
     (if \<not> assembler_available p \<or> \<not> device_is_gfx8_9_no_xnack (GetDeviceName p) \<or> \<not> forward p
      then Inr False
      else if \<not> nd then Inl AssertionFailed
      else IsCorrect nd (p\<lparr>weights_layout := []\<rparr>))"
  using assms by (simp add: IsCorrect_def)

theorem IsCorrect_weights_layout_witness:
  "weights_layout (params_14x23\<lparr>weights_layout := ''KCHW''\<rparr>) \<noteq> [] \<and>
   IsCorrect False (params_14x23\<lparr>weights_layout := ''KCHW''\<rparr>) = Inl AssertionFailed \<and>
   IsCorrect False (params_14x23\<lparr>weights_layout := ''KCHW'', forward := False\<rparr>) = Inr False"
  using IsCorrect_weights_layout [of "params_14x23\<lparr>weights_layout := ''KCHW''\<rparr>" False]
    IsCorrect_weights_layout [of "params_14x23\<lparr>weights_layout := ''KCHW'', forward := False\<rparr>" False]
  by (simp add: params_14x23_def device_is_gfx8_9_no_xnack_def)

text \<open>
  The claim as stated fails on the problem \<open>params_14x23\<close> with the weights layout
  \<open>KCHW\<close>, which meets the three prerequisites: the build with assertions stops at the
  assertion, the build without them returns true. Neither returns false.
\<close>

theorem IsCorrect_weights_layout_counterexample:
  "weights_layout (params_14x23\<lparr>weights_layout := ''KCHW''\<rparr>) \<noteq> [] \<and>
   IsCorrect False (params_14x23\<lparr>weights_layout := ''KCHW''\<rparr>) = Inl AssertionFailed \<and>
   IsCorrect False (params_14x23\<lparr>weights_layout := ''KCHW''\<rparr>) \<noteq> Inr False \<and>
   IsCorrect True (params_14x23\<lparr>weights_layout := ''KCHW''\<rparr>) = Inr True \<and>
   IsCorrect True (params_14x23\<lparr>weights_layout := ''KCHW''\<rparr>) \<noteq> Inr False"
  by (simp add: params_14x23_def IsCorrect_def device_is_gfx8_9_no_xnack_def int_rem_def
      signed_modulo_int_def word_sle_eq)

section \<open>Rounding up to a multiple\<close>

lemma ceiling_div_int:
  fixes v s :: int
  assumes "0 < s"
  shows "\<lceil>real_of_int v / real_of_int s\<rceil> = (v + s - 1) div s"
proof -
  define q where "q = v div s"
  define r where "r = v mod s"
  have v: "v = s * q + r" and r0: "0 \<le> r" and rs: "r < s"
    using assms by (simp_all add: q_def r_def)
  have "(v + s - 1) div s = - (- v div s)"
  proof (cases "r = 0")
    case True
    have "(v + s - 1) div s = q"
      using assms v True by (intro int_div_pos_eq [where r = "s - 1"]) auto
    moreover have "- v div s = - q"
      using assms v True by (intro int_div_pos_eq [where r = 0]) auto
    ultimately show ?thesis by simp
  next
    case False
    have "(v + s - 1) div s = q + 1"
      using assms v r0 rs False
      by (intro int_div_pos_eq [where r = "r - 1"]) (auto simp add: algebra_simps)
    moreover have "- v div s = - q - 1"
      using assms v r0 rs False
      by (intro int_div_pos_eq [where r = "s - r"]) (auto simp add: algebra_simps)
    ultimately show ?thesis by simp
  qed
  then show ?thesis
    by (simp add: ceiling_divide_eq_div)
qed

lemma AlignUp_spec_div: "0 < s \<Longrightarrow> AlignUp_spec v s = (v + s - 1) div s * s"
  by (simp add: AlignUp_spec_def ceiling_div_int)

lemma AlignUp_spec_least:
  assumes "0 < s"
  shows "s dvd AlignUp_spec v s" and "v \<le> AlignUp_spec v s"
    and "s dvd m \<Longrightarrow> v \<le> m \<Longrightarrow> AlignUp_spec v s \<le> m"
proof -
  show "s dvd AlignUp_spec v s"
    by (simp add: AlignUp_spec_def)
  have "0 < real_of_int s"
    using assms by simp
  then have "real_of_int v \<le> of_int \<lceil>real_of_int v / real_of_int s\<rceil> * real_of_int s"
    using le_of_int_ceiling [of "real_of_int v / real_of_int s"]
    by (simp only: pos_divide_le_eq)
  then show "v \<le> AlignUp_spec v s"
    unfolding AlignUp_spec_def by (metis of_int_le_iff of_int_mult)
next
  assume "s dvd m" and vm: "v \<le> m"
  then obtain q where m: "m = q * s" by (auto simp add: dvd_def mult.commute)
  have "real_of_int v / real_of_int s \<le> real_of_int q"
    using assms vm m by (simp add: pos_divide_le_eq flip: of_int_mult)
  then have "\<lceil>real_of_int v / real_of_int s\<rceil> \<le> q"
    by (simp add: ceiling_le_iff)
  then show "AlignUp_spec v s \<le> m"
    using assms m by (simp add: AlignUp_spec_def)
qed

lemma AlignUp_exact:
  assumes v: "0 \<le> sint val" and s: "0 < step"
    and fit: "AlignUp_spec (sint val) (uint step) \<le> 2147483647"
  shows "\<exists>r. AlignUp nd val step = Inr r \<and> sint r = AlignUp_spec (sint val) (uint step)"
proof -
  define V where "V = sint val"
  define S where "S = uint step"
  have S0: "0 < S" and S32: "S < 4294967296"
    using s uint_lt2p [of step] by (simp_all add: S_def word_less_def)
  have V0: "0 \<le> V" and V31: "V < 2147483648"
    using v cint_range [of val] by (simp_all add: V_def)
  define q where "q = (V + S - 1) div S"
  have spec: "AlignUp_spec V S = q * S"
    using S0 by (simp add: AlignUp_spec_div q_def)
  have q0: "0 \<le> q"
    using V0 S0 by (simp add: q_def pos_imp_zdiv_nonneg_iff)
  have qS: "q * S \<le> 2147483647"
    using fit spec by (simp add: V_def S_def)
  have sum: "V + S - 1 < 4294967296"
  proof (cases "V = 0")
    case True
    then show ?thesis using S32 by simp
  next
    case False
    then have "1 \<le> q"
      using V0 S0 pos_imp_zdiv_pos_iff [of S "V + S - 1"] by (simp add: q_def)
    then have "S \<le> q * S"
      using S0 by (simp add: mult_le_cancel_right1)
    then show ?thesis
      using qS V31 by simp
  qed
  have w: "val + step - 1 = word_of_int (V + S - 1)"
    by (simp add: V_def S_def)
  have u1: "uint (val + step - 1) = V + S - 1"
    unfolding w using V0 S0 sum by (intro uint_of_int_small) auto
  have u2: "uint ((val + step - 1) div step) = q"
    by (simp add: uint_div u1 q_def S_def)
  have e: "(val + step - 1) div step * step = word_of_int (q * S)"
    using u2 by (metis S_def of_int_mult word_of_int_uint)
  have "0 \<le> q * S"
    using q0 S0 by simp
  then have "sint (word_of_int (q * S) :: cint) = q * S"
    using qS by (intro sint_of_int_small) auto
  then have "sint ((val + step - 1) div step * step) = q * S"
    by (simp only: e)
  then show ?thesis
    using s spec by (simp add: AlignUp_def V_def S_def word_neq_0_conv [symmetric])
qed

text \<open>
  Claim C8, as amended. For every value \<open>\<ge> 0\<close> and every step \<open>> 0\<close> whose least
  multiple of the step that is \<open>\<ge> value\<close>, \<open>ceil(value / step) * step\<close>, is at most
  \<open>INT_MAX = 2147483647\<close>, \<open>AlignUp\<close> returns that multiple; \<open>AlignUp(3,64) = 64\<close>,
  \<open>AlignUp(130,4) = 132\<close> and \<open>AlignUp(0,8) = 0\<close>. A zero step (the only non-positive
  \<open>unsigned\<close> step) never returns: it fails the assertion, and with \<open>NDEBUG\<close> it divides
  by zero.
\<close>

theorem AlignUp_least_multiple:
  "(0 \<le> sint val \<and> 0 < step \<and> AlignUp_spec (sint val) (uint step) \<le> 2147483647 \<longrightarrow>
      (\<exists>r. AlignUp nd val step = Inr r \<and> sint r = AlignUp_spec (sint val) (uint step) \<and>
           uint step dvd sint r \<and> sint val \<le> sint r \<and>
           (\<forall>m. uint step dvd m \<and> sint val \<le> m \<longrightarrow> sint r \<le> m))) \<and>
   AlignUp nd 3 64 = Inr 64 \<and> AlignUp nd 130 4 = Inr 132 \<and> AlignUp nd 0 8 = Inr 0 \<and>
   AlignUp False val 0 = Inl AssertionFailed \<and> AlignUp True val 0 = Inl DivisionByZero"
proof -
  have "\<exists>r. AlignUp nd val step = Inr r \<and> sint r = AlignUp_spec (sint val) (uint step) \<and>
           uint step dvd sint r \<and> sint val \<le> sint r \<and>
           (\<forall>m. uint step dvd m \<and> sint val \<le> m \<longrightarrow> sint r \<le> m)"
    if v: "0 \<le> sint val" and s: "0 < step"
      and fit: "AlignUp_spec (sint val) (uint step) \<le> 2147483647"
  proof -
    have S0: "0 < uint step"
      using s by (simp add: word_less_def)
    obtain r where r: "AlignUp nd val step = Inr r"
      "sint r = AlignUp_spec (sint val) (uint step)"
      using AlignUp_exact [OF v s fit] by blast
    show ?thesis
      using r AlignUp_spec_least [OF S0] by auto
  qed
  moreover have "AlignUp nd 3 64 = Inr 64 \<and> AlignUp nd 130 4 = Inr 132 \<and> AlignUp nd 0 8 = Inr 0"
    by (simp add: AlignUp_def)
  moreover have "AlignUp False val 0 = Inl AssertionFailed \<and> AlignUp True val 0 = Inl DivisionByZero"
    by (simp add: AlignUp_def)
  ultimately show ?thesis
    by blast
qed

theorem AlignUp_least_multiple_witness:
  "0 \<le> sint (130 :: cint) \<and> 0 < (4 :: cunsigned) \<and>
   AlignUp_spec (sint (130 :: cint)) (uint (4 :: cunsigned)) = 132 \<and>
   (\<exists>r. AlignUp False 130 4 = Inr r \<and> sint r = 132 \<and> 130 \<le> sint r) \<and>
   AlignUp False 130 0 = Inl AssertionFailed"
  using AlignUp_least_multiple [of 130 4 False]
  by (simp add: AlignUp_spec_def)

text \<open>
  The claim as stated, for every value \<open>\<ge> 0\<close> and every step \<open>> 0\<close>, fails at both ends of
  the range. With value 2 and step \<open>4294967295\<close> the unsigned sum \<open>val + step - 1\<close> wraps
  to 0 and the result is 0, which is below the value. With value \<open>2147483647\<close> and step 64
  the multiple \<open>2147483648\<close> is not an \<open>int\<close> and the result is \<open>-2147483648\<close>.
\<close>

theorem AlignUp_least_multiple_counterexample:
  "0 \<le> sint (2 :: cint) \<and> 0 < (4294967295 :: cunsigned) \<and>
   AlignUp False 2 4294967295 = Inr 0 \<and>
   AlignUp_spec (sint (2 :: cint)) (uint (4294967295 :: cunsigned)) = 4294967295 \<and>
   0 \<le> sint (2147483647 :: cint) \<and> 0 < (64 :: cunsigned) \<and>
   AlignUp False 2147483647 64 = Inr (- 2147483648) \<and>
   AlignUp_spec (sint (2147483647 :: cint)) (uint (64 :: cunsigned)) = 2147483648"
  by (simp add: AlignUp_def AlignUp_spec_def)

section \<open>The implicit-GEMM solver: applicability\<close>

lemma size_t_mod_128:
  fixes a b c :: size_t
  shows "(a * b * c) mod 128 = 0 \<longleftrightarrow> 128 dvd unat a * unat b * unat c"
proof -
  have "(a * b * c) mod 128 = 0 \<longleftrightarrow> unat ((a * b * c) mod 128) = 0"
    by (simp add: unat_eq_0)
  also have "\<dots> \<longleftrightarrow> (unat a * unat b * unat c) mod 2 ^ 64 mod 128 = 0"
    by (simp add: unat_mod unat_word_ariths mod_mult_left_eq mod_mult_right_eq)
  also have "\<dots> \<longleftrightarrow> (unat a * unat b * unat c) mod 128 = 0"
    by (simp add: mod_mod_cancel)
  finally show ?thesis
    by (simp add: dvd_eq_mod_eq_0)
qed

lemma size_t_mod_dvd:
  fixes a b :: size_t
  shows "a mod b = 0 \<longleftrightarrow> unat b dvd unat a"
proof -
  have "a mod b = 0 \<longleftrightarrow> unat (a mod b) = 0"
    by (simp add: unat_eq_0)
  then show ?thesis
    by (simp add: unat_mod dvd_eq_mod_eq_0)
qed

lemma IsApplicable_conditions:
  assumes "group_counts ctx \<noteq> 0" and "E ctx True \<noteq> 0"
  shows "IsApplicable X E ctx =
     Inr (direction ctx = BackwardData \<and> spatial_dims ctx = 2 \<and>
          (data_type ctx = miopenFloat \<or> data_type ctx = miopenHalf \<or>
           data_type ctx = miopenBFloat16) \<and>
          X ctx \<and>
          unat (E ctx True) dvd unat (GetOutputChannelK ctx) div unat (group_counts ctx) \<and>
          16 dvd unat (GetOutputChannelK ctx) div unat (group_counts ctx) div unat (E ctx True) \<and>
          128 dvd unat (GetBatchN ctx) * unat (GetOutputHeightHo ctx) *
                  unat (GetOutputWidthWo ctx) \<and>
          128 dvd unat (GetInputChannelC ctx) div unat (group_counts ctx) *
                  unat (GetFilterHeightY ctx) * unat (GetFilterWidthX ctx))"
proof -
  have k16: "GetOutputChannelK ctx div group_counts ctx div E ctx True mod 16 = 0 \<longleftrightarrow>
      16 dvd unat (GetOutputChannelK ctx) div unat (group_counts ctx) div unat (E ctx True)"
    using size_t_mod_dvd [of "GetOutputChannelK ctx div group_counts ctx div E ctx True" 16]
    by (simp add: unat_div)
  have ke: "GetOutputChannelK ctx div group_counts ctx mod E ctx True = 0 \<longleftrightarrow>
      unat (E ctx True) dvd unat (GetOutputChannelK ctx) div unat (group_counts ctx)"
    using size_t_mod_dvd [of "GetOutputChannelK ctx div group_counts ctx" "E ctx True"]
    by (simp add: unat_div)
  have m: "(GetInputChannelC ctx div group_counts ctx * GetFilterHeightY ctx *
        GetFilterWidthX ctx) mod 128 = 0 \<longleftrightarrow>
      128 dvd unat (GetInputChannelC ctx) div unat (group_counts ctx) *
              unat (GetFilterHeightY ctx) * unat (GetFilterWidthX ctx)"
    using size_t_mod_128 [of "GetInputChannelC ctx div group_counts ctx"
        "GetFilterHeightY ctx" "GetFilterWidthX ctx"]
    by (simp add: unat_div)
  note n = size_t_mod_128 [of "GetBatchN ctx" "GetOutputHeightHo ctx" "GetOutputWidthWo ctx"]
  show ?thesis
    using assms
    by (auto simp add: IsApplicable_def Let_def IsBackwardData_def Is2d_def IsFp32_def
        IsFp16_def IsBfp16_def k16 ke m n)
qed

lemma IsApplicable_defined:
  assumes "IsApplicable X E ctx = Inr True"
  shows "group_counts ctx \<noteq> 0" and "E ctx True \<noteq> 0"
  using assms by (auto simp add: IsApplicable_def Let_def split: if_splits)

text \<open>
  Claim C2, as amended. For every context whose group count and element-pack length are
  not zero, \<open>IsApplicable\<close> returns a boolean, and it returns true exactly when the
  direction is backward-data, the problem is 2D, the datatype is \<open>fp32\<close>, \<open>fp16\<close> or
  \<open>bfp16\<close>, the device supports xdlops, and with \<open>k = K / group_count\<close> and
  \<open>c = C / group_count\<close>: the pack length divides \<open>k\<close>, 16 divides \<open>k / pack length\<close>,
  128 divides \<open>N * Ho * Wo\<close> and 128 divides \<open>c * Y * X\<close>; there the violation of any
  one condition yields false. It never returns true when the group count or the pack
  length is zero: a wrong direction, rank or datatype still yields false, and otherwise
  the test divides by zero before it looks at the remaining conditions. The products are
  the exact ones: the test computes them modulo \<open>2^64\<close>, which does not change
  divisibility by 128.
\<close>

theorem IsApplicable_true_iff:
  "(IsApplicable X E ctx = Inr True \<longleftrightarrow>
      direction ctx = BackwardData \<and> spatial_dims ctx = 2 \<and>
      (data_type ctx = miopenFloat \<or> data_type ctx = miopenHalf \<or>
       data_type ctx = miopenBFloat16) \<and>
      X ctx \<and>
      group_counts ctx \<noteq> 0 \<and> E ctx True \<noteq> 0 \<and>
      unat (E ctx True) dvd unat (GetOutputChannelK ctx) div unat (group_counts ctx) \<and>
      16 dvd unat (GetOutputChannelK ctx) div unat (group_counts ctx) div unat (E ctx True) \<and>
      128 dvd unat (GetBatchN ctx) * unat (GetOutputHeightHo ctx) *
              unat (GetOutputWidthWo ctx) \<and>
      128 dvd unat (GetInputChannelC ctx) div unat (group_counts ctx) *
              unat (GetFilterHeightY ctx) * unat (GetFilterWidthX ctx)) \<and>
   (group_counts ctx \<noteq> 0 \<and> E ctx True \<noteq> 0 \<longrightarrow>
      IsApplicable X E ctx = Inr True \<or> IsApplicable X E ctx = Inr False) \<and>
   (direction ctx = BackwardData \<and> spatial_dims ctx = 2 \<and>
    (data_type ctx = miopenFloat \<or> data_type ctx = miopenHalf \<or>
     data_type ctx = miopenBFloat16) \<and>
    (group_counts ctx = 0 \<or> E ctx True = 0) \<longrightarrow>
      IsApplicable X E ctx = Inl DivisionByZero) \<and>
   ((direction ctx \<noteq> BackwardData \<or> spatial_dims ctx \<noteq> 2 \<or>
     (data_type ctx \<noteq> miopenFloat \<and> data_type ctx \<noteq> miopenHalf \<and>
      data_type ctx \<noteq> miopenBFloat16)) \<longrightarrow>
      IsApplicable X E ctx = Inr False)"
proof -
  have early: "IsApplicable X E ctx = Inr False"
    if "direction ctx \<noteq> BackwardData \<or> spatial_dims ctx \<noteq> 2 \<or>
     (data_type ctx \<noteq> miopenFloat \<and> data_type ctx \<noteq> miopenHalf \<and>
      data_type ctx \<noteq> miopenBFloat16)"
    using that
    by (auto simp add: IsApplicable_def IsBackwardData_def Is2d_def IsFp32_def IsFp16_def
        IsBfp16_def)
  have trap: "IsApplicable X E ctx = Inl DivisionByZero"
    if "direction ctx = BackwardData \<and> spatial_dims ctx = 2 \<and>
      (data_type ctx = miopenFloat \<or> data_type ctx = miopenHalf \<or>
       data_type ctx = miopenBFloat16) \<and>
      (group_counts ctx = 0 \<or> E ctx True = 0)"
    using that
    by (auto simp add: IsApplicable_def Let_def IsBackwardData_def Is2d_def IsFp32_def
        IsFp16_def IsBfp16_def)
  have main: "(IsApplicable X E ctx = Inr True \<longleftrightarrow>
      direction ctx = BackwardData \<and> spatial_dims ctx = 2 \<and>
      (data_type ctx = miopenFloat \<or> data_type ctx = miopenHalf \<or>
       data_type ctx = miopenBFloat16) \<and>
      X ctx \<and>
      group_counts ctx \<noteq> 0 \<and> E ctx True \<noteq> 0 \<and>
      unat (E ctx True) dvd unat (GetOutputChannelK ctx) div unat (group_counts ctx) \<and>
      16 dvd unat (GetOutputChannelK ctx) div unat (group_counts ctx) div unat (E ctx True) \<and>
      128 dvd unat (GetBatchN ctx) * unat (GetOutputHeightHo ctx) *
              unat (GetOutputWidthWo ctx) \<and>
      128 dvd unat (GetInputChannelC ctx) div unat (group_counts ctx) *
              unat (GetFilterHeightY ctx) * unat (GetFilterWidthX ctx)) \<and>
   (group_counts ctx \<noteq> 0 \<and> E ctx True \<noteq> 0 \<longrightarrow>
      IsApplicable X E ctx = Inr True \<or> IsApplicable X E ctx = Inr False)"
  proof (cases "group_counts ctx \<noteq> 0 \<and> E ctx True \<noteq> 0")
    case True
    then show ?thesis
      using IsApplicable_conditions [of ctx E X] by auto
  next
    case False
    then have "IsApplicable X E ctx \<noteq> Inr True"
      using IsApplicable_defined [of X E ctx] by blast
    then show ?thesis
      using False by blast
  qed
  show ?thesis
    apply (intro conjI)
       apply (rule conjunct1 [OF main])
      apply (rule conjunct2 [OF main])
     apply (rule impI, erule trap)
    apply (rule impI, erule early)
    done
qed

theorem IsApplicable_true_iff_witness:
  "group_counts ctx_gemm \<noteq> 0 \<and> pack_length ctx_gemm True \<noteq> 0 \<and>
   IsApplicable xdlops_device pack_length ctx_gemm = Inr True \<and>
   IsApplicable xdlops_device pack_length (ctx_gemm\<lparr>GetBatchN := 100\<rparr>) = Inr False \<and>
   IsApplicable xdlops_device pack_length (ctx_gemm\<lparr>group_counts := 0\<rparr>) =
     Inl DivisionByZero \<and>
   IsApplicable xdlops_device pack_length (ctx_gemm\<lparr>direction := Forward\<rparr>) = Inr False"
  using IsApplicable_true_iff [of xdlops_device pack_length ctx_gemm]
    IsApplicable_true_iff [of xdlops_device pack_length "ctx_gemm\<lparr>GetBatchN := 100\<rparr>"]
    IsApplicable_true_iff [of xdlops_device pack_length "ctx_gemm\<lparr>group_counts := 0\<rparr>"]
    IsApplicable_true_iff [of xdlops_device pack_length "ctx_gemm\<lparr>direction := Forward\<rparr>"]
  by (auto simp add: ctx_gemm_def pack_length_def xdlops_device_def IsFp16_def)

text \<open>
  The claim as stated, with no condition on the group count, fails on the problem
  \<open>ctx_gemm\<close> with group count 0 on a device without xdlops: the xdlops condition is
  violated, and the test does not return false but divides the channel count by the group
  count.
\<close>

theorem IsApplicable_true_iff_counterexample:
  "\<not> no_xdlops_device (ctx_gemm\<lparr>group_counts := 0\<rparr>) \<and>
   IsApplicable no_xdlops_device pack_length (ctx_gemm\<lparr>group_counts := 0\<rparr>) =
     Inl DivisionByZero \<and>
   IsApplicable no_xdlops_device pack_length (ctx_gemm\<lparr>group_counts := 0\<rparr>) \<noteq> Inr False"
  by (simp add: ctx_gemm_def no_xdlops_device_def IsApplicable_def IsBackwardData_def
      Is2d_def IsFp32_def IsFp16_def IsBfp16_def)

section \<open>The implicit-GEMM solver: workspace and launch configuration\<close>

text \<open>
  Claim C10. For every context, applicable or not, the workspace size in the solution of
  \<open>GetSolution\<close> is the value of \<open>GetWorkspaceSize\<close> on the same context.
\<close>

theorem GetSolution_workspace: "workspce_sz (GetSolution ctx) = GetWorkspaceSize ctx"
  by (simp add: GetSolution_def Let_def)

lemma unat_size_t_prod3:
  fixes a b c :: size_t
  shows "unat (a * b * c) = (unat a * unat b * unat c) mod 2 ^ 64"
  by (simp add: unat_word_ariths mod_mult_left_eq)

lemma unat_size_t_prod5:
  fixes a b c d e :: size_t
  shows "unat (a * b * c * d * e) = (unat a * unat b * unat c * unat d * unat e) mod 2 ^ 64"
  by (simp add: unat_word_ariths mod_mult_left_eq)

text \<open>
  Claim C3, as amended. \<open>GetWorkspaceSize\<close> returns 0 when the datatype is \<open>fp32\<close>. When
  it is \<open>fp16\<close> or \<open>bfp16\<close> it returns \<open>N * C * Hi * Wi * sizeof(fp32)\<close> computed in
  \<open>std::size_t\<close>, that is modulo \<open>2^64\<close>; this is the number \<open>N * C * Hi * Wi * 4\<close>
  of bytes whenever that number is below \<open>2^64\<close>. In particular \<open>fp16\<close> with \<open>N = 8\<close>,
  \<open>C = 3\<close>, \<open>Hi = Wi = 224\<close> gives \<open>8 * 3 * 224 * 224 * 4\<close> bytes, and \<open>fp32\<close> with
  the same shape gives 0.
\<close>

theorem GetWorkspaceSize_bytes:
  "(IsFp32 ctx \<longrightarrow> GetWorkspaceSize ctx = 0) \<and>
   (IsFp16 ctx \<or> IsBfp16 ctx \<longrightarrow>
      unat (GetWorkspaceSize ctx) =
        (unat (GetBatchN ctx) * unat (GetInputChannelC ctx) * unat (GetInputHeightHi ctx) *
         unat (GetInputWidthWi ctx) * 4) mod 2 ^ 64 \<and>
      (unat (GetBatchN ctx) * unat (GetInputChannelC ctx) * unat (GetInputHeightHi ctx) *
         unat (GetInputWidthWi ctx) * 4 < 2 ^ 64 \<longrightarrow>
       unat (GetWorkspaceSize ctx) =
         unat (GetBatchN ctx) * unat (GetInputChannelC ctx) * unat (GetInputHeightHi ctx) *
         unat (GetInputWidthWi ctx) * 4))"
proof -
  have "unat (GetWorkspaceSize ctx) =
      (unat (GetBatchN ctx) * unat (GetInputChannelC ctx) * unat (GetInputHeightHi ctx) *
       unat (GetInputWidthWi ctx) * 4) mod 2 ^ 64"
    if "IsFp16 ctx \<or> IsBfp16 ctx"
  proof -
    have "\<not> IsFp32 ctx"
      using that by (auto simp add: IsFp32_def IsFp16_def IsBfp16_def)
    then show ?thesis
      using unat_size_t_prod5 [of "GetBatchN ctx" "GetInputChannelC ctx" "GetInputHeightHi ctx"
          "GetInputWidthWi ctx" 4]
      by (simp add: GetWorkspaceSize_def Let_def)
  qed
  then show ?thesis
    by (simp add: GetWorkspaceSize_def)
qed

theorem GetWorkspaceSize_bytes_witness:
  "IsFp16 ctx_224 \<and> unat (GetWorkspaceSize ctx_224) = 8 * 3 * 224 * 224 * 4 \<and>
   IsFp32 (ctx_224\<lparr>data_type := miopenFloat\<rparr>) \<and>
   GetWorkspaceSize (ctx_224\<lparr>data_type := miopenFloat\<rparr>) = 0"
  using GetWorkspaceSize_bytes [of ctx_224]
    GetWorkspaceSize_bytes [of "ctx_224\<lparr>data_type := miopenFloat\<rparr>"]
  by (simp add: ctx_224_def IsFp16_def IsFp32_def)

text \<open>
  The claim as stated, for every context, fails on an \<open>fp16\<close> tensor with all four
  extents \<open>65536\<close>: \<open>N * C * Hi * Wi * 4\<close> is \<open>2^66\<close> bytes, the product wraps around
  and the function returns 0.
\<close>

theorem GetWorkspaceSize_bytes_counterexample:
  "IsFp16 ctx_65536 \<and> GetWorkspaceSize ctx_65536 = 0 \<and>
   unat (GetBatchN ctx_65536) * unat (GetInputChannelC ctx_65536) *
   unat (GetInputHeightHi ctx_65536) * unat (GetInputWidthWi ctx_65536) * 4 =
     73786976294838206464"
  by (simp add: ctx_65536_def IsFp16_def IsFp32_def GetWorkspaceSize_def)

lemma GetSolution_vectors:
  "map l_wk (construction_params (GetSolution ctx)) = [[256, 1, 1]]"
  "map g_wk (construction_params (GetSolution ctx)) =
     [[256 * (GetInputChannelC ctx * GetFilterHeightY ctx * GetFilterWidthX ctx div 128 *
              (GetBatchN ctx * GetOutputHeightHo ctx * GetOutputWidthWo ctx div 128)), 1, 1]]"
  by (simp_all add: GetSolution_def Let_def)

lemma unat_grid:
  fixes m n :: size_t
  assumes "256 * (unat m div 128 * (unat n div 128)) < 2 ^ 64"
  shows "unat (256 * (m div 128 * (n div 128))) = 256 * (unat m div 128 * (unat n div 128))"
proof -
  have d1: "unat (m div 128) = unat m div 128" and d2: "unat (n div 128) = unat n div 128"
    by (simp_all add: unat_div)
  have lt: "unat (m div 128) * unat (n div 128) < 2 ^ LENGTH(64)"
    using assms by (simp add: d1 d2)
  have p: "unat (m div 128 * (n div 128)) = unat m div 128 * (unat n div 128)"
    using lt unat_mult_lem [of "m div 128" "n div 128"] by (simp only: d1 d2)
  have "unat (256 :: size_t) * unat (m div 128 * (n div 128)) < 2 ^ LENGTH(64)"
    using assms by (simp add: p)
  then have "unat (256 * (m div 128 * (n div 128))) =
      unat (256 :: size_t) * unat (m div 128 * (n div 128))"
    using unat_mult_lem [of 256 "m div 128 * (n div 128)"] by simp
  then show ?thesis
    by (simp add: p)
qed

text \<open>
  Claim C4, as amended. For every context on which \<open>IsApplicable\<close> has returned true,
  \<open>GetSolution\<close> produces one kernel with local work size \<open>(256,1,1)\<close> and global work
  size \<open>(256 * grid_size, 1, 1)\<close>, where \<open>grid_size = (M / 128) * (N_dim / 128)\<close> with
  \<open>M = C * Y * X\<close> and \<open>N_dim = N * Ho * Wo\<close>, all in \<open>std::size_t\<close> arithmetic; these
  are the exact numbers whenever \<open>M\<close>, \<open>N_dim\<close> and \<open>256 * grid_size\<close> are below
  \<open>2^64\<close>. The division of \<open>N_dim\<close> by 128 is exact. The division of \<open>M\<close> by 128 is
  exact when the group count divides \<open>C\<close> (so whenever there is one group): applicability
  enforces that 128 divides \<open>(C / group_count) * Y * X\<close>, not \<open>C * Y * X\<close>.
\<close>

theorem GetSolution_work_sizes:
  fixes ctx :: ConvolutionContext
  defines "M \<equiv> unat (GetInputChannelC ctx) * unat (GetFilterHeightY ctx) *
                unat (GetFilterWidthX ctx)"
    and "N_dim \<equiv> unat (GetBatchN ctx) * unat (GetOutputHeightHo ctx) *
                unat (GetOutputWidthWo ctx)"
  assumes appl: "IsApplicable X E ctx = Inr True"
  shows "map l_wk (construction_params (GetSolution ctx)) = [[256, 1, 1]] \<and>
     map g_wk (construction_params (GetSolution ctx)) =
       [[256 * (GetInputChannelC ctx * GetFilterHeightY ctx * GetFilterWidthX ctx div 128 *
                (GetBatchN ctx * GetOutputHeightHo ctx * GetOutputWidthWo ctx div 128)), 1, 1]] \<and>
     (M < 2 ^ 64 \<and> N_dim < 2 ^ 64 \<and> 256 * (M div 128 * (N_dim div 128)) < 2 ^ 64 \<longrightarrow>
        map (map unat \<circ> g_wk) (construction_params (GetSolution ctx)) =
          [[256 * (M div 128 * (N_dim div 128)), 1, 1]]) \<and>
     128 dvd N_dim \<and>
     (unat (group_counts ctx) dvd unat (GetInputChannelC ctx) \<longrightarrow> 128 dvd M)"
proof -
  note k = GetSolution_vectors [of ctx]
  have G: "group_counts ctx \<noteq> 0" and E: "E ctx True \<noteq> 0"
    using IsApplicable_defined [OF appl] by simp_all
  have conds: "128 dvd N_dim"
    "128 dvd unat (GetInputChannelC ctx) div unat (group_counts ctx) *
             unat (GetFilterHeightY ctx) * unat (GetFilterWidthX ctx)"
    using appl G E IsApplicable_conditions [of ctx E X] by (simp_all add: N_dim_def)
  have exact: "128 dvd M" if gc: "unat (group_counts ctx) dvd unat (GetInputChannelC ctx)"
  proof -
    obtain q where q: "unat (GetInputChannelC ctx) = unat (group_counts ctx) * q"
      using gc by (auto simp add: dvd_def)
    have "unat (group_counts ctx) \<noteq> 0"
      using G by (simp add: unat_eq_0)
    then have cq: "unat (GetInputChannelC ctx) div unat (group_counts ctx) = q"
      by (simp add: q)
    have "128 dvd q * unat (GetFilterHeightY ctx) * unat (GetFilterWidthX ctx)"
      using conds(2) by (simp only: cq)
    then have "128 dvd unat (group_counts ctx) *
        (q * unat (GetFilterHeightY ctx) * unat (GetFilterWidthX ctx))"
      by (rule dvd_mult)
    then show ?thesis
      by (simp add: M_def q mult.assoc)
  qed
  have nat_level: "map (map unat \<circ> g_wk) (construction_params (GetSolution ctx)) =
      [[256 * (M div 128 * (N_dim div 128)), 1, 1]]"
    if "M < 2 ^ 64" "N_dim < 2 ^ 64" "256 * (M div 128 * (N_dim div 128)) < 2 ^ 64"
  proof -
    have m: "unat (GetInputChannelC ctx * GetFilterHeightY ctx * GetFilterWidthX ctx) = M"
      using that(1) unfolding M_def by (simp only: unat_size_t_prod3 mod_less)
    have n: "unat (GetBatchN ctx * GetOutputHeightHo ctx * GetOutputWidthWo ctx) = N_dim"
      using that(2) unfolding N_dim_def by (simp only: unat_size_t_prod3 mod_less)
    have "map (map unat) (map g_wk (construction_params (GetSolution ctx))) =
        [[256 * (M div 128 * (N_dim div 128)), 1, 1]]"
      using that(3)
        unat_grid [of "GetInputChannelC ctx * GetFilterHeightY ctx * GetFilterWidthX ctx"
          "GetBatchN ctx * GetOutputHeightHo ctx * GetOutputWidthWo ctx"]
      by (simp add: k m n)
    then show ?thesis
      by simp
  qed
  show ?thesis
  proof (intro conjI impI)
    show "map l_wk (construction_params (GetSolution ctx)) = [[256, 1, 1]]"
      by (rule k)
    show "map g_wk (construction_params (GetSolution ctx)) =
       [[256 * (GetInputChannelC ctx * GetFilterHeightY ctx * GetFilterWidthX ctx div 128 *
                (GetBatchN ctx * GetOutputHeightHo ctx * GetOutputWidthWo ctx div 128)), 1, 1]]"
      by (rule k)
    show "128 dvd N_dim"
      by (rule conds)
    show "128 dvd M" if "unat (group_counts ctx) dvd unat (GetInputChannelC ctx)"
      using that by (rule exact)
    show "map (map unat \<circ> g_wk) (construction_params (GetSolution ctx)) =
        [[256 * (M div 128 * (N_dim div 128)), 1, 1]]"
      if "M < 2 ^ 64 \<and> N_dim < 2 ^ 64 \<and> 256 * (M div 128 * (N_dim div 128)) < 2 ^ 64"
      using that nat_level by simp
  qed
qed

theorem GetSolution_work_sizes_witness:
  "IsApplicable xdlops_device pack_length ctx_gemm = Inr True \<and>
   map l_wk (construction_params (GetSolution ctx_gemm)) = [[256, 1, 1]] \<and>
   map (map unat \<circ> g_wk) (construction_params (GetSolution ctx_gemm)) =
     [[256 * (2304 div 128 * (25088 div 128)), 1, 1]] \<and>
   unat (group_counts ctx_gemm) dvd unat (GetInputChannelC ctx_gemm) \<and>
   (128 :: nat) dvd 256 * 3 * 3 \<and> (128 :: nat) dvd 128 * 14 * 14"
proof -
  have a: "IsApplicable xdlops_device pack_length ctx_gemm = Inr True"
    by (simp add: ctx_gemm_def IsApplicable_def xdlops_device_def pack_length_def
        IsBackwardData_def Is2d_def IsFp32_def IsFp16_def IsBfp16_def)
  show ?thesis
    using a GetSolution_work_sizes [OF a]
    by (simp add: ctx_gemm_def)
qed

text \<open>
  The claim as stated fails on the grouped problem \<open>ctx_grouped\<close>, which is applicable:
  \<open>c * Y * X = 2 * 8 * 8 = 128\<close>, but \<open>M = C * Y * X = 5 * 8 * 8 = 320\<close> is not a
  multiple of 128, the quotient \<open>M / 128 = 2\<close> is rounded, and the global work size is
  \<open>256 * 2\<close>. It also fails on the applicable problem \<open>ctx_wide_filter\<close>, where
  \<open>M = 2^64\<close> wraps around to 0: the global work size is 0, not \<open>256 * (M / 128) = 2^65\<close>.
\<close>

theorem GetSolution_work_sizes_counterexample:
  "IsApplicable xdlops_device pack_length ctx_grouped = Inr True \<and>
   unat (GetInputChannelC ctx_grouped) * unat (GetFilterHeightY ctx_grouped) *
     unat (GetFilterWidthX ctx_grouped) = 320 \<and>
   \<not> (128::nat) dvd 320 \<and>
   map g_wk (construction_params (GetSolution ctx_grouped)) = [[512, 1, 1]] \<and>
   IsApplicable xdlops_device pack_length ctx_wide_filter = Inr True \<and>
   unat (GetInputChannelC ctx_wide_filter) * unat (GetFilterHeightY ctx_wide_filter) *
     unat (GetFilterWidthX ctx_wide_filter) = 18446744073709551616 \<and>
   unat (GetBatchN ctx_wide_filter) * unat (GetOutputHeightHo ctx_wide_filter) *
     unat (GetOutputWidthWo ctx_wide_filter) = 128 \<and>
   (256 :: nat) * (18446744073709551616 div 128 * (128 div 128)) = 36893488147419103232 \<and>
   map g_wk (construction_params (GetSolution ctx_wide_filter)) = [[0, 1, 1]]"
  by (simp add: ctx_grouped_def ctx_wide_filter_def IsApplicable_def xdlops_device_def
      pack_length_def IsBackwardData_def Is2d_def IsFp32_def IsFp16_def IsBfp16_def
      GetSolution_def Let_def)

section \<open>The fixed-shape solver: launch configuration\<close>

lemma IsCorrect_accepts:
  assumes "IsCorrect nd p = Inr True"
  shows "0 \<le> sint (pad0 p)" "sint (pad0 p) \<le> 5" "0 \<le> sint (pad1 p)" "sint (pad1 p) \<le> 5"
    "kernel_stride0 p = 2" "kernel_stride1 p = 2" "kernel_size0 p = 10" "kernel_size1 p = 5"
    "1 \<le> sint (n_outputs p)" "16 dvd sint (n_outputs p)"
    "10 - 2 * sint (pad0 p) \<le> sint (in_width p)" "sint (in_width p) \<le> 8191"
    "5 - 2 * sint (pad1 p) \<le> sint (in_height p)" "sint (in_height p) \<le> 131076"
proof -
  have c: "0 \<le>s pad0 p" "pad0 p \<le>s 5" "0 \<le>s pad1 p" "pad1 p \<le>s 5"
    "kernel_stride0 p = 2" "kernel_stride1 p = 2" "kernel_size0 p = 10" "kernel_size1 p = 5"
    "int_rem (n_outputs p) 16 = 0" "1 \<le>s n_outputs p"
    "10 - pad0 p * 2 \<le>s in_width p" "in_width p \<le>s 8191"
    "5 - pad1 p * 2 \<le>s in_height p" "in_height p \<le>s 131076"
    using assms by (auto simp add: IsCorrect_def Let_def split: if_splits)
  from c show pads: "0 \<le> sint (pad0 p)" "sint (pad0 p) \<le> 5" "0 \<le> sint (pad1 p)"
    "sint (pad1 p) \<le> 5"
    by (simp_all add: word_sle_eq)
  from c show "kernel_stride0 p = 2" "kernel_stride1 p = 2" "kernel_size0 p = 10"
    "kernel_size1 p = 5"
    by simp_all
  from c show "1 \<le> sint (n_outputs p)" "16 dvd sint (n_outputs p)"
    "sint (in_width p) \<le> 8191" "sint (in_height p) \<le> 131076"
    by (simp_all add: word_sle_eq int_rem_16)
  have w: "sint (10 - pad0 p * 2) = 10 - 2 * sint (pad0 p)"
    and h: "sint (5 - pad1 p * 2) = 5 - 2 * sint (pad1 p)"
    using pads min_in_small [of "pad0 p" 10] min_in_small [of "pad1 p" 5]
    by simp_all
  show "10 - 2 * sint (pad0 p) \<le> sint (in_width p)" "5 - 2 * sint (pad1 p) \<le> sint (in_height p)"
    using c(11,13) w h by (simp_all add: word_sle_eq)
qed

lemma and_then_Inr: "and_then m f = Inr r \<longleftrightarrow> (\<exists>x. m = Inr x \<and> f x = Inr r)"
  by (cases m) (simp_all add: and_then_def)

lemma PrepareForUsage_vectors:
  assumes "PrepareForUsage nd p = Inr r"
  shows "\<exists>g0 g1. construction_params r =
      [\<lparr>l_wk = [64, 8, 1], g_wk = [g0, g1, scast (batch_sz p)],
        kernel_file = ''conv5x10u2v2f1.s'', kernel_name = ''conv5x10u2v2f1''\<rparr>]"
  using assms unfolding PrepareForUsage_def
  by (auto simp add: and_then_Inr)

lemma PrepareForUsage_returns:
  assumes "kernel_stride0 p = 2" and "kernel_stride1 p = 2"
  shows "\<exists>r. PrepareForUsage nd p = Inr r"
  using assms
  by (simp add: PrepareForUsage_def and_then_def out_w_def out_h_def int_div_def AlignUp_def
      cint_eq_iff)

text \<open>
  Claim C9. Every solution of \<open>GetSolution\<close>, and every result that \<open>PrepareForUsage\<close>
  returns, describes one kernel whose local and global work-size vectors have exactly
  three entries. The dimensions a solver does not use hold 1: the last two of both
  vectors of \<open>GetSolution\<close>, and the last of the local vector of \<open>PrepareForUsage\<close>, whose
  global vector uses all three. \<open>PrepareForUsage\<close> does return a result on every problem
  that \<open>IsCorrect\<close> accepts.
\<close>

theorem work_size_vectors:
  "length (construction_params (GetSolution ctx)) = 1 \<and>
   (\<forall>k \<in> set (construction_params (GetSolution ctx)).
      length (l_wk k) = 3 \<and> length (g_wk k) = 3 \<and>
      l_wk k ! 1 = 1 \<and> l_wk k ! 2 = 1 \<and> g_wk k ! 1 = 1 \<and> g_wk k ! 2 = 1) \<and>
   (\<forall>r. PrepareForUsage nd p = Inr r \<longrightarrow>
      length (construction_params r) = 1 \<and>
      (\<forall>k \<in> set (construction_params r).
         length (l_wk k) = 3 \<and> length (g_wk k) = 3 \<and> l_wk k ! 2 = 1)) \<and>
   (IsCorrect nd p = Inr True \<longrightarrow> (\<exists>r. PrepareForUsage nd p = Inr r))"
proof (intro conjI allI impI)
  show "length (construction_params (GetSolution ctx)) = 1"
    by (simp add: GetSolution_def Let_def)
  show "\<forall>k \<in> set (construction_params (GetSolution ctx)).
      length (l_wk k) = 3 \<and> length (g_wk k) = 3 \<and>
      l_wk k ! 1 = 1 \<and> l_wk k ! 2 = 1 \<and> g_wk k ! 1 = 1 \<and> g_wk k ! 2 = 1"
    by (simp add: GetSolution_def Let_def)
next
  fix r
  assume "PrepareForUsage nd p = Inr r"
  then obtain g0 g1 where "construction_params r =
      [\<lparr>l_wk = [64, 8, 1], g_wk = [g0, g1, scast (batch_sz p)],
        kernel_file = ''conv5x10u2v2f1.s'', kernel_name = ''conv5x10u2v2f1''\<rparr>]"
    using PrepareForUsage_vectors by blast
  then show "length (construction_params r) = 1"
    and "\<forall>k \<in> set (construction_params r).
         length (l_wk k) = 3 \<and> length (g_wk k) = 3 \<and> l_wk k ! 2 = 1"
    by simp_all
next
  assume "IsCorrect nd p = Inr True"
  then show "\<exists>r. PrepareForUsage nd p = Inr r"
    using IsCorrect_accepts(5,6) PrepareForUsage_returns by blast
qed

theorem work_size_vectors_witness:
  "IsCorrect False params_14x23 = Inr True \<and>
   (\<exists>r. PrepareForUsage False params_14x23 = Inr r \<and>
        map (length \<circ> l_wk) (construction_params r) = [3] \<and>
        map (length \<circ> g_wk) (construction_params r) = [3]) \<and>
   map (length \<circ> l_wk) (construction_params (GetSolution ctx_gemm)) = [3] \<and>
   map (length \<circ> g_wk) (construction_params (GetSolution ctx_gemm)) = [3]"
proof -
  have a: "IsCorrect False params_14x23 = Inr True"
    by (simp add: params_14x23_def IsCorrect_def device_is_gfx8_9_no_xnack_def int_rem_def
        signed_modulo_int_def word_sle_eq)
  note w = work_size_vectors [of ctx_gemm False params_14x23]
  from w a obtain r where r: "PrepareForUsage False params_14x23 = Inr r"
    by blast
  with w have "length (construction_params r) = 1"
    and "\<forall>k \<in> set (construction_params r). length (l_wk k) = 3 \<and> length (g_wk k) = 3"
    by simp_all
  then have "map (length \<circ> l_wk) (construction_params r) = [3] \<and>
      map (length \<circ> g_wk) (construction_params r) = [3]"
    by (cases "construction_params r") simp_all
  moreover from w have "length (construction_params (GetSolution ctx_gemm)) = 1"
    and "\<forall>k \<in> set (construction_params (GetSolution ctx_gemm)).
      length (l_wk k) = 3 \<and> length (g_wk k) = 3"
    by simp_all
  then have "map (length \<circ> l_wk) (construction_params (GetSolution ctx_gemm)) = [3] \<and>
      map (length \<circ> g_wk) (construction_params (GetSolution ctx_gemm)) = [3]"
    by (cases "construction_params (GetSolution ctx_gemm)") simp_all
  ultimately show ?thesis
    using a r by (intro conjI exI [of _ r]) simp_all
qed

section \<open>The output sizes of the fixed-shape solver\<close>

lemma OutputSize_spec_div:
  "OutputSize_spec inp pad ksize stride = (inp + 2 * pad - (ksize - stride)) div stride"
  by (simp only: OutputSize_spec_def floor_divide_of_int_eq)

lemma sdiv_pos_divisor:
  fixes a b :: int
  assumes "0 < b"
  shows "a sdiv b = (if 0 \<le> a then a div b else - (- a div b))"
  using assms by (simp add: signed_divide_int_def sgn_if)

lemma sdiv_pos_divisor_range:
  fixes a b :: int
  assumes "0 < b" and "- 2147483648 \<le> a" and "a < 2147483648"
  shows "- 2147483648 \<le> a sdiv b" and "a sdiv b < 2147483648"
proof -
  have le: "k div b \<le> k" if "0 \<le> k" for k
    using that assms(1) zdiv_mono2 [of k 1 b] by simp
  have ge: "0 \<le> k div b" if "0 \<le> k" for k
    using that assms(1) by (simp add: pos_imp_zdiv_nonneg_iff)
  show "- 2147483648 \<le> a sdiv b"
    using assms le [of "- a"] ge [of a] by (auto simp add: sdiv_pos_divisor)
  show "a sdiv b < 2147483648"
    using assms le [of a] ge [of "- a"] by (auto simp add: sdiv_pos_divisor)
qed

lemma int_div_pos_divisor:
  assumes "0 < sint b"
  shows "\<exists>q. int_div a b = Inr q \<and> sint q = sint a sdiv sint b"
proof -
  have "b \<noteq> 0" and "b \<noteq> - 1"
    using assms by auto
  moreover have "sint (word_of_int (sint a sdiv sint b) :: cint) = sint a sdiv sint b"
    using sdiv_pos_divisor_range [OF assms, of "sint a"] cint_range [of a]
    by (intro sint_of_int_small) simp_all
  ultimately show ?thesis
    by (simp add: int_div_def int_quot_def)
qed

lemma out_numerator:
  fixes i pd ks st :: cint
  assumes "- 2147483648 \<le> sint i + 2 * sint pd - (sint ks - sint st)"
    and "sint i + 2 * sint pd - (sint ks - sint st) \<le> 2147483647"
  shows "sint (i + pd * 2 + st - ks) = sint i + 2 * sint pd - (sint ks - sint st)"
proof -
  have "i + pd * 2 + st - ks = word_of_int (sint i + 2 * sint pd - (sint ks - sint st))"
    by simp
  then show ?thesis
    using assms by (simp only: sint_of_int_small)
qed

lemma out_size_truncated:
  fixes i pd ks st :: cint
  defines "N \<equiv> sint i + 2 * sint pd - (sint ks - sint st)"
  assumes st: "0 < sint st" and lo: "- 2147483648 \<le> N" and hi: "N \<le> 2147483647"
  shows "\<exists>q. int_div (i + pd * 2 + st - ks) st = Inr q \<and> sint q = N sdiv sint st \<and>
      (0 \<le> N \<longrightarrow> sint q = OutputSize_spec (sint i) (sint pd) (sint ks) (sint st))"
proof -
  have n: "sint (i + pd * 2 + st - ks) = N"
    using lo hi unfolding N_def by (rule out_numerator)
  obtain q where q: "int_div (i + pd * 2 + st - ks) st = Inr q" "sint q = N sdiv sint st"
    using int_div_pos_divisor [OF st, of "i + pd * 2 + st - ks"] n by auto
  have "sint q = OutputSize_spec (sint i) (sint pd) (sint ks) (sint st)" if "0 \<le> N"
    using that q(2) st by (simp add: OutputSize_spec_div sdiv_pos_divisor N_def)
  then show ?thesis
    using q by blast
qed

lemma IsCorrect_out_sizes:
  assumes "IsCorrect nd p = Inr True"
  shows "\<exists>w h. out_w p = Inr w \<and> out_h p = Inr h \<and>
      sint w = OutputSize_spec (sint (in_width p)) (sint (pad0 p)) (sint (kernel_size0 p))
                 (sint (kernel_stride0 p)) \<and>
      sint h = OutputSize_spec (sint (in_height p)) (sint (pad1 p)) (sint (kernel_size1 p))
                 (sint (kernel_stride1 p)) \<and>
      1 \<le> sint w \<and> sint w \<le> 4096 \<and> 1 \<le> sint h \<and> sint h \<le> 65541"
proof -
  note c = IsCorrect_accepts [OF assms]
  have k: "sint (kernel_stride0 p) = 2" "sint (kernel_stride1 p) = 2"
    "sint (kernel_size0 p) = 10" "sint (kernel_size1 p) = 5"
    by (simp_all add: c)
  obtain w where w: "out_w p = Inr w"
    "sint w = OutputSize_spec (sint (in_width p)) (sint (pad0 p)) (sint (kernel_size0 p))
                (sint (kernel_stride0 p))"
    using out_size_truncated [of "kernel_stride0 p" "in_width p" "pad0 p" "kernel_size0 p"] c k
    by (auto simp add: out_w_def)
  obtain h where h: "out_h p = Inr h"
    "sint h = OutputSize_spec (sint (in_height p)) (sint (pad1 p)) (sint (kernel_size1 p))
                (sint (kernel_stride1 p))"
    using out_size_truncated [of "kernel_stride1 p" "in_height p" "pad1 p" "kernel_size1 p"] c k
    by (auto simp add: out_h_def)
  have "1 \<le> sint w" "sint w \<le> 4096"
    using c k by (simp_all add: w(2) OutputSize_spec_div)
  moreover have "1 \<le> sint h" "sint h \<le> 65541"
    using c k by (simp_all add: h(2) OutputSize_spec_div)
  ultimately show ?thesis
    using w h by blast
qed

text \<open>
  Claim C7. On every problem that \<open>IsCorrect\<close> accepts, which is the precondition of
  \<open>PrepareForUsage\<close>, the output sizes \<open>out_w\<close> and \<open>out_h\<close> that \<open>PrepareForUsage\<close>
  computes equal \<open>(in + 2 * pad - (kernel - stride)) / stride\<close> with floor division, each
  from its own axis's input size, padding, kernel size and stride; in particular
  \<open>in_width = 14\<close>, \<open>pad = 0\<close>, \<open>stride = 2\<close>, \<open>kernel = 10\<close> gives \<open>out_w = 3\<close>.
\<close>

theorem out_sizes_floor:
  assumes "IsCorrect nd p = Inr True"
  shows "\<exists>w h. out_w p = Inr w \<and> out_h p = Inr h \<and>
      sint w = OutputSize_spec (sint (in_width p)) (sint (pad0 p))
                 (sint (kernel_size0 p)) (sint (kernel_stride0 p)) \<and>
      sint h = OutputSize_spec (sint (in_height p)) (sint (pad1 p))
                 (sint (kernel_size1 p)) (sint (kernel_stride1 p))"
  using IsCorrect_out_sizes [OF assms] by blast

theorem out_sizes_floor_witness:
  "IsCorrect False params_14x23 = Inr True \<and>
   out_w params_14x23 = Inr 3 \<and> OutputSize_spec 14 0 10 2 = 3 \<and>
   out_h params_14x23 = Inr 10 \<and> OutputSize_spec 23 0 5 2 = 10"
proof -
  have a: "IsCorrect False params_14x23 = Inr True"
    by (simp add: params_14x23_def IsCorrect_def device_is_gfx8_9_no_xnack_def int_rem_def
        signed_modulo_int_def word_sle_eq)
  have s: "OutputSize_spec 14 0 10 2 = 3" "OutputSize_spec 23 0 5 2 = 10"
    by (simp_all add: OutputSize_spec_div)
  from out_sizes_floor [OF a]
  obtain w h where "out_w params_14x23 = Inr w" "out_h params_14x23 = Inr h"
    "sint w = OutputSize_spec (sint (in_width params_14x23)) (sint (pad0 params_14x23))
       (sint (kernel_size0 params_14x23)) (sint (kernel_stride0 params_14x23))"
    "sint h = OutputSize_spec (sint (in_height params_14x23)) (sint (pad1 params_14x23))
       (sint (kernel_size1 params_14x23)) (sint (kernel_stride1 params_14x23))"
    by blast
  then have "out_w params_14x23 = Inr w" "out_h params_14x23 = Inr h" "sint w = 3" "sint h = 10"
    using s by (simp_all add: params_14x23_def)
  then have "out_w params_14x23 = Inr 3" "out_h params_14x23 = Inr 10"
    by (simp_all add: cint_eq_iff)
  then show ?thesis
    using a s by (intro conjI) assumption+
qed

section \<open>The work sizes of the fixed-shape solver\<close>

lemma AlignUp_spec_upper:
  assumes "0 < s"
  shows "AlignUp_spec v s \<le> v + s - 1"
proof -
  have "AlignUp_spec v s = (v + s - 1) - (v + s - 1) mod s"
    using assms by (simp add: AlignUp_spec_div minus_mod_eq_div_mult)
  moreover have "0 \<le> (v + s - 1) mod s"
    using assms by (rule pos_mod_sign)
  ultimately show ?thesis
    by linarith
qed

lemma AlignUp_in_range:
  assumes "0 \<le> sint val" and "0 < step" and "sint val + uint step \<le> 2147483648"
  shows "\<exists>r. AlignUp nd val step = Inr r \<and> sint r = AlignUp_spec (sint val) (uint step) \<and>
      0 \<le> sint r"
proof -
  have S0: "0 < uint step"
    using assms(2) by (simp add: word_less_def)
  have "AlignUp_spec (sint val) (uint step) \<le> 2147483647"
    using AlignUp_spec_upper [OF S0, of "sint val"] assms(3) by simp
  then obtain r where r: "AlignUp nd val step = Inr r"
    "sint r = AlignUp_spec (sint val) (uint step)"
    using AlignUp_exact [OF assms(1,2)] by blast
  moreover have "0 \<le> sint r"
    using AlignUp_spec_least(2) [OF S0, of "sint val"] assms(1) r(2) by simp
  ultimately show ?thesis
    by blast
qed

lemma int_quot_nonneg:
  assumes "0 \<le> sint a" and "0 < sint b"
  shows "sint (int_quot a b) = sint a div sint b"
proof -
  have "sint (word_of_int (sint a sdiv sint b) :: cint) = sint a sdiv sint b"
    using sdiv_pos_divisor_range [OF assms(2), of "sint a"] cint_range [of a]
    by (intro sint_of_int_small) simp_all
  then show ?thesis
    using assms by (simp add: int_quot_def sdiv_pos_divisor)
qed

lemma uint_scast_nonneg:
  fixes x :: cint
  assumes "0 \<le> sint x"
  shows "uint (scast x :: size_t) = sint x"
proof -
  have "sint (scast x :: size_t) = sint x"
    by (rule sint_up_scast) (simp add: is_up)
  moreover have "sint x < 2 ^ 64"
    using cint_range(2) [of x] by simp
  ultimately show ?thesis
    using assms by (simp add: uint_sint take_bit_int_eq_self)
qed

text \<open>
  Claim C6, as amended. For every problem that \<open>IsCorrect\<close> accepts and for which
  \<open>AlignUp(out_h, 4) / 4 * AlignUp(output_channels / 2, 8)\<close> is at most
  \<open>INT_MAX = 2147483647\<close>, \<open>PrepareForUsage\<close> returns one kernel with local work size
  \<open>(64, 8, 1)\<close> and a global work size whose dimension 0 is \<open>AlignUp(out_w, 64)\<close>, whose
  dimension 1 is that product, and whose dimension 2 is the batch size (converted to
  \<open>size_t\<close>); in particular \<open>out_h = 10\<close> with 32 output channels gives 48 in dimension 1.
  \<open>AlignUp\<close> and the output sizes are the ones of the specification.
\<close>

theorem PrepareForUsage_work_sizes:
  fixes p :: ImplementationSearchParameters
  defines "ow \<equiv> OutputSize_spec (sint (in_width p)) (sint (pad0 p)) (sint (kernel_size0 p))
                  (sint (kernel_stride0 p))"
    and "oh \<equiv> OutputSize_spec (sint (in_height p)) (sint (pad1 p)) (sint (kernel_size1 p))
                  (sint (kernel_stride1 p))"
  assumes ok: "IsCorrect nd p = Inr True"
    and fit: "AlignUp_spec oh 4 div 4 * AlignUp_spec (sint (n_outputs p) div 2) 8 \<le> 2147483647"
  shows "\<exists>r g0 g1. PrepareForUsage nd p = Inr r \<and>
      map l_wk (construction_params r) = [[64, 8, 1]] \<and>
      map g_wk (construction_params r) = [[g0, g1, scast (batch_sz p)]] \<and>
      uint g0 = AlignUp_spec ow 64 \<and>
      uint g1 = AlignUp_spec oh 4 div 4 * AlignUp_spec (sint (n_outputs p) div 2) 8"
proof -
  note c = IsCorrect_accepts [OF ok]
  obtain w h where wh: "out_w p = Inr w" "out_h p = Inr h" "sint w = ow" "sint h = oh"
    "1 \<le> sint w" "sint w \<le> 4096" "1 \<le> sint h" "sint h \<le> 65541"
    using IsCorrect_out_sizes [OF ok] unfolding ow_def oh_def by blast
  obtain g0 where g0: "AlignUp nd w 64 = Inr g0" "sint g0 = AlignUp_spec ow 64" "0 \<le> sint g0"
    using AlignUp_in_range [of w 64 nd] wh by auto
  obtain a1 where a1: "AlignUp nd h 4 = Inr a1" "sint a1 = AlignUp_spec oh 4" "0 \<le> sint a1"
    using AlignUp_in_range [of h 4 nd] wh by auto
  have kq: "sint (int_quot (n_outputs p) 2) = sint (n_outputs p) div 2"
    using int_quot_nonneg [of "n_outputs p" 2] c(9) by simp
  then have kq0: "0 \<le> sint (int_quot (n_outputs p) 2)"
    and kq1: "sint (int_quot (n_outputs p) 2) + 8 \<le> 2147483648"
    using c(9) cint_range(2) [of "n_outputs p"] by simp_all
  obtain a2 where a2: "AlignUp nd (int_quot (n_outputs p) 2) 8 = Inr a2"
    "sint a2 = AlignUp_spec (sint (n_outputs p) div 2) 8" "0 \<le> sint a2"
    using AlignUp_in_range [of "int_quot (n_outputs p) 2" 8 nd] kq kq0 kq1 by auto
  have q1: "sint (int_quot a1 4) = AlignUp_spec oh 4 div 4"
    using int_quot_nonneg [of a1 4] a1 by simp
  then have q10: "0 \<le> sint (int_quot a1 4)"
    using a1 by simp
  have "sint (int_quot a1 4 * a2) = sint (int_quot a1 4) * sint a2"
  proof (rule sint_mult_small)
    show "- 2147483648 \<le> sint (int_quot a1 4) * sint a2"
      using q10 a2(3) by (meson mult_nonneg_nonneg order_trans zero_le_numeral neg_le_0_iff_le)
    show "sint (int_quot a1 4) * sint a2 < 2147483648"
      using fit by (simp add: q1 a2(2))
  qed
  then have g1: "sint (int_quot a1 4 * a2) =
      AlignUp_spec oh 4 div 4 * AlignUp_spec (sint (n_outputs p) div 2) 8"
    and g10: "0 \<le> sint (int_quot a1 4 * a2)"
    using q10 a2(3) by (simp_all add: q1 a2(2))
  have r: "PrepareForUsage nd p =
      Inr \<lparr>construction_params =
            [\<lparr>l_wk = [64, 8, 1],
              g_wk = [scast g0, scast (int_quot a1 4 * a2), scast (batch_sz p)],
              kernel_file = ''conv5x10u2v2f1.s'', kernel_name = ''conv5x10u2v2f1''\<rparr>]\<rparr>"
    by (simp add: PrepareForUsage_def and_then_def wh(1,2) g0(1) a1(1) a2(1))
  show ?thesis
  proof (intro exI conjI)
    show "PrepareForUsage nd p =
      Inr \<lparr>construction_params =
            [\<lparr>l_wk = [64, 8, 1],
              g_wk = [scast g0, scast (int_quot a1 4 * a2), scast (batch_sz p)],
              kernel_file = ''conv5x10u2v2f1.s'', kernel_name = ''conv5x10u2v2f1''\<rparr>]\<rparr>"
      by (rule r)
    show "uint (scast g0 :: size_t) = AlignUp_spec ow 64"
      using uint_scast_nonneg [OF g0(3)] g0(2) by simp
    show "uint (scast (int_quot a1 4 * a2) :: size_t) =
        AlignUp_spec oh 4 div 4 * AlignUp_spec (sint (n_outputs p) div 2) 8"
      using uint_scast_nonneg [OF g10] g1 by simp
  qed simp_all
qed

theorem PrepareForUsage_work_sizes_witness:
  "IsCorrect False params_14x23 = Inr True \<and>
   AlignUp_spec (OutputSize_spec 23 0 5 2) 4 div 4 * AlignUp_spec (32 div 2) 8 = 48 \<and>
   (\<exists>r g0 g1. PrepareForUsage False params_14x23 = Inr r \<and>
      map l_wk (construction_params r) = [[64, 8, 1]] \<and>
      map g_wk (construction_params r) = [[g0, g1, 8]] \<and>
      uint g0 = 64 \<and> uint g1 = 48)"
proof -
  have a: "IsCorrect False params_14x23 = Inr True"
    by (simp add: params_14x23_def IsCorrect_def device_is_gfx8_9_no_xnack_def int_rem_def
        signed_modulo_int_def word_sle_eq)
  have s: "AlignUp_spec (OutputSize_spec 23 0 5 2) 4 div 4 * AlignUp_spec (32 div 2) 8 = 48"
    "AlignUp_spec (OutputSize_spec 14 0 10 2) 64 = 64"
    by (simp_all add: OutputSize_spec_div AlignUp_spec_def)
  have v: "sint (in_width params_14x23) = 14" "sint (pad0 params_14x23) = 0"
    "sint (kernel_size0 params_14x23) = 10" "sint (kernel_stride0 params_14x23) = 2"
    "sint (in_height params_14x23) = 23" "sint (pad1 params_14x23) = 0"
    "sint (kernel_size1 params_14x23) = 5" "sint (kernel_stride1 params_14x23) = 2"
    "sint (n_outputs params_14x23) = 32" "batch_sz params_14x23 = 8"
    by (simp_all add: params_14x23_def)
  have "\<exists>r g0 g1. PrepareForUsage False params_14x23 = Inr r \<and>
      map l_wk (construction_params r) = [[64, 8, 1]] \<and>
      map g_wk (construction_params r) = [[g0, g1, 8]] \<and>
      uint g0 = 64 \<and> uint g1 = 48"
    using PrepareForUsage_work_sizes [OF a]
    by (simp add: v OutputSize_spec_div AlignUp_spec_def)
  then show ?thesis
    using a s(1) by simp
qed

text \<open>
  The claim as stated, for every accepted problem, fails on the accepted problem with
  input height \<open>131076\<close> and \<open>262144\<close> output channels: \<open>out_h = 65536\<close>,
  \<open>AlignUp(out_h, 4) / 4 = 16384\<close>, \<open>AlignUp(131072, 8) = 131072\<close>, and their product
  \<open>2147483648\<close> is not an \<open>int\<close>. The \<open>int\<close> multiplication overflows (to
  \<open>-2147483648\<close> on two's complement hardware), and dimension 1 of the global work size
  is its conversion to \<open>size_t\<close>.
\<close>

theorem PrepareForUsage_work_sizes_counterexample:
  "IsCorrect False (params_14x23\<lparr>in_height := 131076, n_outputs := 262144\<rparr>) = Inr True \<and>
   AlignUp_spec (OutputSize_spec 131076 0 5 2) 4 div 4 * AlignUp_spec (262144 div 2) 8 =
     2147483648 \<and>
   PrepareForUsage False (params_14x23\<lparr>in_height := 131076, n_outputs := 262144\<rparr>) =
     Inr \<lparr>construction_params =
           [\<lparr>l_wk = [64, 8, 1], g_wk = [64, 18446744071562067968, 8],
             kernel_file = ''conv5x10u2v2f1.s'', kernel_name = ''conv5x10u2v2f1''\<rparr>]\<rparr>"
  by (simp add: params_14x23_def IsCorrect_def device_is_gfx8_9_no_xnack_def int_rem_def
      signed_modulo_int_def word_sle_eq OutputSize_spec_div AlignUp_spec_def
      PrepareForUsage_def and_then_def out_w_def out_h_def AlignUp_def int_div_def
      int_quot_def signed_divide_int_def)

end
